theory Spec2Isabelle
  imports Main
begin

section \<open>A shallow embedding of http\_server.py\<close>

text \<open>
  The development follows \<^verbatim>\<open>src/http_server.py\<close> function by function.

  Python \<^verbatim>\<open>str\<close> and \<^verbatim>\<open>bytes\<close> values are both lists of \<^typ>\<open>char\<close>.  In a \<^verbatim>\<open>bytes\<close>
  value a character is one byte; in a \<^verbatim>\<open>str\<close> value it is one code point, so the
  embedding covers the code points below 256.  The two readings meet in \<open>encode\<close>,
  the UTF-8 encoding that \<^verbatim>\<open>str.encode()\<close> performs.

  Exceptions are values: a function that may raise returns \<open>exn + 'a\<close>, with
  \<open>Inl\<close> for the raised exception.
\<close>

type_synonym str = string
type_synonym bytes = string

datatype exn = NameError | NotImplementedError | IndexError | AttributeError

definition CR :: char where
  "CR = CHR 0x0D"

definition LF :: char where
  "LF = CHR 0x0A"

definition CRLF :: string where
  "CRLF = [CR, LF]"

subsection \<open>Library functions of Python used by the server\<close>

text \<open>\<^verbatim>\<open>sep.join(parts)\<close> on \<^verbatim>\<open>str\<close> and on \<^verbatim>\<open>bytes\<close>.\<close>

fun join :: "string \<Rightarrow> string list \<Rightarrow> string" where
  "join sep [] = []"
| "join sep [x] = x"
| "join sep (x # y # ys) = x @ sep @ join sep (y # ys)"

text \<open>
  \<^verbatim>\<open>s.split(c)\<close> with a one-character separator: every occurrence of the separator
  cuts, so neighbouring separators give empty pieces and the result is never empty.
\<close>

fun split :: "char \<Rightarrow> string \<Rightarrow> string list" where
  "split c [] = [[]]"
| "split c (x # xs) =
     (if x = c then [] # split c xs
      else (case split c xs of
              [] \<Rightarrow> [[x]]
            | w # ws \<Rightarrow> (x # w) # ws))"

text \<open>
  \<^verbatim>\<open>str.encode()\<close>: UTF-8.  A code point below 128 is one byte, a code point from
  128 to 255 is the two bytes \<open>0xC0 + cp div 64\<close> and \<open>0x80 + cp mod 64\<close>.
\<close>

definition encode_char :: "char \<Rightarrow> bytes" where
  "encode_char c =
     (if (of_char c :: nat) < 128 then [c]
      else [char_of (192 + (of_char c :: nat) div 64),
            char_of (128 + (of_char c :: nat) mod 64)])"

definition encode :: "str \<Rightarrow> bytes" where
  "encode s = concat (map encode_char s)"

text \<open>
  \<^verbatim>\<open>os.path.join\<close> of \<^verbatim>\<open>posixpath\<close>: a component that starts with the separator
  replaces what was joined so far; otherwise it is appended, after a separator
  unless the path so far is empty or already ends with one.
\<close>

definition join_step :: "str \<Rightarrow> str \<Rightarrow> str" where
  "join_step p b =
     (if b \<noteq> [] \<and> hd b = CHR ''/'' then b
      else if p = [] \<or> last p = CHR ''/'' then p @ b
      else p @ ''/'' @ b)"

definition os_path_join :: "str \<Rightarrow> str list \<Rightarrow> str" where
  "os_path_join a ps = foldl join_step a ps"

subsection \<open>The world the server runs in\<close>

text \<open>
  What the operating system and the \<^verbatim>\<open>mimetypes\<close> module answer is a parameter
  of the model.  \<open>lookup\<close> is the filesystem: it maps a path string to the entry
  the path resolves to, a regular file with its bytes or a directory with its
  entry names in the order \<^verbatim>\<open>os.listdir\<close> enumerates them.  \<open>guess_type\<close> is the
  first component of \<^verbatim>\<open>mimetypes.guess_type\<close>, \<open>None\<close> when the type cannot be
  guessed.  \<open>current_dir\<close> is the directory of the server's own file and \<open>stdout\<close>
  the text printed so far.
\<close>

datatype node = File bytes | Dir "str list"

record world =
  current_dir :: str
  lookup :: "str \<Rightarrow> node option"
  guess_type :: "str \<Rightarrow> str option"
  stdout :: str

definition os_path_exists :: "world \<Rightarrow> str \<Rightarrow> bool" where
  "os_path_exists w q = (lookup w q \<noteq> None)"

definition os_path_isdir :: "world \<Rightarrow> str \<Rightarrow> bool" where
  "os_path_isdir w q = (case lookup w q of Some (Dir names) \<Rightarrow> True | _ \<Rightarrow> False)"

definition os_listdir :: "world \<Rightarrow> str \<Rightarrow> str list" where
  "os_listdir w q = (case lookup w q of Some (Dir names) \<Rightarrow> names | _ \<Rightarrow> [])"

definition read_file :: "world \<Rightarrow> str \<Rightarrow> bytes" where
  "read_file w q = (case lookup w q of Some (File content) \<Rightarrow> content | _ \<Rightarrow> [])"

subsection \<open>The response builders\<close>

definition response_ok :: "bytes \<Rightarrow> bytes \<Rightarrow> bytes" where
  "response_ok body mimetype =
     join CRLF [''HTTP/1.1 200 OK'', ''Content-Type: '' @ mimetype, [], body]"

definition response_method_not_allowed :: bytes where
  "response_method_not_allowed = ''HTTP/1.1 405 Method Not Allowed'' @ CRLF"

definition response_not_found :: bytes where
  "response_not_found = ''HTTP/1.1 404 Not Found'' @ CRLF"

subsection \<open>The request parser\<close>

text \<open>
  \<^verbatim>\<open>requested[0]\<close> always exists, since \<open>split\<close> never returns the empty list.
  \<^verbatim>\<open>requested[1]\<close> raises \<^verbatim>\<open>IndexError\<close> when the request holds no space; the
  test for \<^verbatim>\<open>POST\<close> comes first.
\<close>

definition parse_request :: "str \<Rightarrow> exn + str" where
  "parse_request request =
     (let requested = split CHR '' '' request;
          request_method = hd requested
      in if request_method = ''POST'' then Inl NotImplementedError
         else if length requested < 2 then Inl IndexError
         else Inr (requested ! 1))"

subsection \<open>The path resolver\<close>

definition query_of :: "world \<Rightarrow> str \<Rightarrow> str" where
  "query_of w path = os_path_join (current_dir w) [''webroot'', drop 1 path]"

text \<open>
  \<^verbatim>\<open>mimetypes.guess_type(query)[0].encode()\<close> raises \<^verbatim>\<open>AttributeError\<close> when the
  guess is \<^verbatim>\<open>None\<close>, before the file is opened.
\<close>

definition response_path :: "world \<Rightarrow> str \<Rightarrow> exn + (bytes \<times> bytes)" where
  "response_path w path =
     (let query = query_of w path
      in if \<not> os_path_exists w query then Inl NameError
         else if os_path_isdir w query then
           (let mime_type = ''text/plain'';
                dir_info = join CRLF (os_listdir w query);
                content = encode dir_info
            in Inr (content, mime_type))
         else
           (case guess_type w query of
              None \<Rightarrow> Inl AttributeError
            | Some t \<Rightarrow>
                (let mime_type = encode t;
                     content = read_file w query
                 in Inr (content, mime_type))))"

subsection \<open>The request handler\<close>

text \<open>
  The handler prints the request, parses it outside the \<^verbatim>\<open>try\<close> block, and
  resolves the path inside it.  The two \<^verbatim>\<open>except\<close> clauses catch \<^verbatim>\<open>NameError\<close>
  and \<^verbatim>\<open>NotImplementedError\<close> raised inside the block; any other exception, and
  any exception of the parser, leaves the handler.  The result is paired with the
  world after the call.
\<close>

definition print_request :: "world \<Rightarrow> str \<Rightarrow> world" where
  "print_request w request =
     w\<lparr>stdout := stdout w @ ''Request received:'' @ [LF] @ request @ [LF, LF] @ [LF]\<rparr>"

definition handle_request :: "world \<Rightarrow> str \<Rightarrow> (exn + bytes) \<times> world" where
  "handle_request w request =
     (let w1 = print_request w request
      in case parse_request request of
           Inl e \<Rightarrow> (Inl e, w1)
         | Inr path \<Rightarrow>
             (case response_path w1 path of
                Inr (content, mime_type) \<Rightarrow> (Inr (response_ok content mime_type), w1)
              | Inl NameError \<Rightarrow> (Inr response_not_found, w1)
              | Inl NotImplementedError \<Rightarrow> (Inr response_method_not_allowed, w1)
              | Inl e \<Rightarrow> (Inl e, w1)))"

subsection \<open>Python values\<close>

text \<open>
  Python is dynamically typed: whether a function returns a string or a tuple is a
  property of the value it returns.  \<open>parse_request_value\<close> is the result of
  \<open>parse_request\<close> as such a value, the string the source returns.
\<close>

datatype pyval = PyStr str | PyTuple "pyval list"

definition parse_request_value :: "str \<Rightarrow> exn + pyval" where
  "parse_request_value request = map_sum id PyStr (parse_request request)"

subsection \<open>An example world\<close>

text \<open>
  A document root \<^verbatim>\<open>/srv/webroot\<close> with a page, an image and a file without an
  extension.  The example guesses the media type from the two extensions the
  specification names, \<^verbatim>\<open>.html\<close> and \<^verbatim>\<open>.png\<close>.
\<close>

definition ends_with :: "str \<Rightarrow> str \<Rightarrow> bool" where
  "ends_with s suffix =
     (length suffix \<le> length s \<and> drop (length s - length suffix) s = suffix)"

definition sample_guess_type :: "str \<Rightarrow> str option" where
  "sample_guess_type q =
     (if ends_with q ''.html'' then Some ''text/html''
      else if ends_with q ''.png'' then Some ''image/png''
      else None)"

definition sample_lookup :: "str \<Rightarrow> node option" where
  "sample_lookup q =
     (if q = ''/srv/webroot/'' then Some (Dir [''a.html'', ''b.png'', ''Makefile''])
      else if q = ''/srv/webroot/a.html'' then Some (File ''<html>'')
      else if q = ''/srv/webroot/b.png'' then Some (File [CHR 0x89, CHR ''P'', CHR ''N'', CHR ''G''])
      else if q = ''/srv/webroot/Makefile'' then Some (File ''all:'')
      else None)"

definition sample_world :: world where
  "sample_world =
     \<lparr>current_dir = ''/srv'', lookup = sample_lookup,
      guess_type = sample_guess_type, stdout = []\<rparr>"

lemmas sample_defs = query_of_def os_path_join_def join_step_def sample_world_def
  sample_lookup_def sample_guess_type_def ends_with_def os_path_exists_def os_path_isdir_def
  os_listdir_def read_file_def

section \<open>Auxiliary facts\<close>

subsection \<open>Splitting at a separator\<close>

lemma split_not_Nil: "split c s \<noteq> []"
  by (induction s) (auto split: list.splits)

lemma split_token: "c \<notin> set m \<Longrightarrow> split c (m @ c # rest) = m # split c rest"
  by (induction m) (auto split: list.splits simp: split_not_Nil)

lemma split_two_tokens:
  assumes "c \<notin> set m" and "c \<notin> set p"
  shows "split c (m @ c # p @ c # rest) = m # p # split c rest"
  using assms by (simp add: split_token)

lemma parse_request_shape:
  assumes "CHR '' '' \<notin> set m" and "CHR '' '' \<notin> set p"
  shows "parse_request (m @ '' '' @ p @ '' '' @ rest) =
           (if m = ''POST'' then Inl NotImplementedError else Inr p)"
  using assms by (simp add: parse_request_def split_two_tokens Let_def)

subsection \<open>Printing leaves the filesystem alone\<close>

lemma print_request_current_dir [simp]: "current_dir (print_request w r) = current_dir w"
  by (simp add: print_request_def)

lemma print_request_lookup [simp]: "lookup (print_request w r) = lookup w"
  by (simp add: print_request_def)

lemma print_request_guess_type [simp]: "guess_type (print_request w r) = guess_type w"
  by (simp add: print_request_def)

lemma response_path_print_request [simp]:
  "response_path (print_request w r) path = response_path w path"
  by (simp add: response_path_def query_of_def os_path_exists_def os_path_isdir_def
      os_listdir_def read_file_def Let_def split: option.splits)

subsection \<open>The two components of the handler's result\<close>

lemma fst_handle_request:
  "fst (handle_request w request) =
     (case parse_request request of
        Inl e \<Rightarrow> Inl e
      | Inr path \<Rightarrow>
          (case response_path w path of
             Inr (content, mime_type) \<Rightarrow> Inr (response_ok content mime_type)
           | Inl NameError \<Rightarrow> Inr response_not_found
           | Inl NotImplementedError \<Rightarrow> Inr response_method_not_allowed
           | Inl e \<Rightarrow> Inl e))"
  by (simp add: handle_request_def Let_def split: sum.splits exn.splits prod.splits)

lemma snd_handle_request: "snd (handle_request w request) = print_request w request"
  by (simp add: handle_request_def Let_def split: sum.splits exn.splits prod.splits)

subsection \<open>The three outcomes of the resolver\<close>

lemma response_path_missing:
  "lookup w (query_of w path) = None \<Longrightarrow> response_path w path = Inl NameError"
  by (simp add: response_path_def os_path_exists_def)

lemma response_path_dir:
  "lookup w (query_of w path) = Some (Dir names) \<Longrightarrow>
   response_path w path = Inr (encode (join CRLF names), ''text/plain'')"
  by (simp add: response_path_def os_path_isdir_def os_path_exists_def os_listdir_def Let_def)

lemma response_path_file:
  "lookup w (query_of w path) = Some (File content) \<Longrightarrow>
   response_path w path =
     (case guess_type w (query_of w path) of
        None \<Rightarrow> Inl AttributeError
      | Some t \<Rightarrow> Inr (content, encode t))"
  by (simp add: response_path_def os_path_isdir_def os_path_exists_def read_file_def Let_def
      split: option.splits)

lemma response_ok_shape:
  "response_ok body media_type =
     ''HTTP/1.1 200 OK'' @ [CR, LF] @ ''Content-Type: '' @ media_type @ [CR, LF, CR, LF] @ body"
  by (simp add: response_ok_def CRLF_def)

lemma handle_request_returns:
  assumes "fst (handle_request w request) = Inr response"
  shows "(\<exists>body media_type. response = response_ok body media_type)
         \<or> response = response_not_found \<or> response = response_method_not_allowed"
proof (cases "parse_request request")
  case (Inl e)
  with assms show ?thesis by (simp add: fst_handle_request)
next
  case (Inr path)
  show ?thesis
  proof (cases "response_path w path")
    case (Inl e)
    with Inr assms show ?thesis
      by (cases e) (simp_all add: fst_handle_request)
  next
    case inr: (Inr cm)
    obtain content mime_type where "cm = (content, mime_type)" by (cases cm)
    with inr Inr assms have "response = response_ok content mime_type"
      by (simp add: fst_handle_request)
    then show ?thesis by blast
  qed
qed

section \<open>Properties\<close>

subsection \<open>Response framing\<close>

text \<open>
  Claim C2.  For every body and every media type, \<open>response_ok body media_type\<close> is the
  byte string \<^verbatim>\<open>HTTP/1.1 200 OK\r\nContent-Type: \<close> followed by the media type,
  \<^verbatim>\<open>\r\n\r\n\<close> and the body: a status line, one Content-Type header, one blank
  line, then the body.  In particular the body \<^verbatim>\<open><html>...\<close> with media type
  \<^verbatim>\<open>text/html\<close> is framed byte for byte as
  \<^verbatim>\<open>HTTP/1.1 200 OK\r\nContent-Type: text/html\r\n\r\n<html>...\<close>.
\<close>

theorem response_ok_framing:
  "response_ok body mimetype =
     ''HTTP/1.1 200 OK'' @ [CR, LF] @ ''Content-Type: '' @ mimetype @ [CR, LF, CR, LF] @ body
   \<and> response_ok ''<html>...'' ''text/html'' =
     ''HTTP/1.1 200 OK'' @ [CR, LF] @ ''Content-Type: text/html'' @ [CR, LF, CR, LF] @ ''<html>...''"
  by (simp add: response_ok_def CRLF_def)

subsection \<open>The parser\<close>

text \<open>
  Claim C4, as stated, says that the parser outputs the pair of method and path
  for every request whose request line has at least two space-separated tokens and
  whose method is not \<^verbatim>\<open>POST\<close>.  The source returns \<^verbatim>\<open>requested[1]\<close>, a string:
  for \<^verbatim>\<open>GET /x HTTP/1.1\r\n\r\n\<close> the value is the string \<^verbatim>\<open>/x\<close>, not the tuple of
  \<^verbatim>\<open>GET\<close> and \<^verbatim>\<open>/x\<close>.  The pieces are cut from the whole request text, not from
  its first line: for the two-token request line of \<^verbatim>\<open>GET /x\r\nHost: a\r\n\r\n\<close> the
  value is \<^verbatim>\<open>/x\r\nHost:\<close>.
\<close>

theorem parse_request_value_counterexample:
  "parse_request_value (''GET /x HTTP/1.1'' @ CRLF @ CRLF) \<noteq>
     Inr (PyTuple [PyStr ''GET'', PyStr ''/x''])
   \<and> parse_request_value (''GET /x HTTP/1.1'' @ CRLF @ CRLF) = Inr (PyStr ''/x'')
   \<and> parse_request_value (''GET /x'' @ CRLF @ ''Host: a'' @ CRLF @ CRLF) =
         Inr (PyStr (''/x'' @ CRLF @ ''Host:''))"
  by (simp add: parse_request_value_def parse_request_def CRLF_def CR_def LF_def Let_def)

text \<open>
  Claim C4, amended.  For every request of the shape method, space, path, space,
  rest, with no space inside method and path and a method other than \<^verbatim>\<open>POST\<close>, the
  parser returns the path alone.  More generally, for every request whose text cut
  at every space has at least two pieces and whose first piece is not \<^verbatim>\<open>POST\<close>, the
  parser returns the second piece.  For every request whose first piece is \<^verbatim>\<open>POST\<close>,
  parsing fails with \<^verbatim>\<open>NotImplementedError\<close>, the MethodNotSupported condition.
\<close>

theorem parse_request_returns_path:
  "(CHR '' '' \<notin> set m \<and> CHR '' '' \<notin> set p \<and> m \<noteq> ''POST'' \<longrightarrow>
      parse_request (m @ '' '' @ p @ '' '' @ rest) = Inr p)
   \<and> (2 \<le> length (split CHR '' '' request) \<and> hd (split CHR '' '' request) \<noteq> ''POST'' \<longrightarrow>
      parse_request request = Inr (split CHR '' '' request ! 1))
   \<and> (hd (split CHR '' '' request) = ''POST'' \<longrightarrow>
      parse_request request = Inl NotImplementedError)"
proof (intro conjI impI)
  assume "CHR '' '' \<notin> set m \<and> CHR '' '' \<notin> set p \<and> m \<noteq> ''POST''"
  then show "parse_request (m @ '' '' @ p @ '' '' @ rest) = Inr p"
    using parse_request_shape [of m p rest] by simp
next
  assume "2 \<le> length (split CHR '' '' request) \<and> hd (split CHR '' '' request) \<noteq> ''POST''"
  then show "parse_request request = Inr (split CHR '' '' request ! 1)"
    by (simp add: parse_request_def Let_def)
next
  assume "hd (split CHR '' '' request) = ''POST''"
  then show "parse_request request = Inl NotImplementedError"
    by (simp add: parse_request_def Let_def)
qed

theorem parse_request_returns_path_witness:
  "CHR '' '' \<notin> set ''GET'' \<and> CHR '' '' \<notin> set ''/x'' \<and> ''GET'' \<noteq> ''POST''
   \<and> parse_request (''GET'' @ '' '' @ ''/x'' @ '' '' @ (''HTTP/1.1'' @ CRLF @ CRLF)) = Inr ''/x''
   \<and> 2 \<le> length (split CHR '' '' ''HEAD /y'') \<and> hd (split CHR '' '' ''HEAD /y'') \<noteq> ''POST''
   \<and> parse_request ''HEAD /y'' = Inr ''/y''
   \<and> hd (split CHR '' '' ''POST /x HTTP/1.1'') = ''POST''
   \<and> parse_request ''POST /x HTTP/1.1'' = Inl NotImplementedError"
proof -
  have a: "CHR '' '' \<notin> set ''GET'' \<and> CHR '' '' \<notin> set ''/x'' \<and> ''GET'' \<noteq> ''POST''"
    by simp
  have b: "2 \<le> length (split CHR '' '' ''HEAD /y'') \<and> hd (split CHR '' '' ''HEAD /y'') \<noteq> ''POST''"
    by simp
  have b': "split CHR '' '' ''HEAD /y'' ! 1 = ''/y''"
    by simp
  have c: "hd (split CHR '' '' ''POST /x HTTP/1.1'') = ''POST''"
    by simp
  from parse_request_returns_path
         [of "''GET''" "''/x''" "''HTTP/1.1'' @ CRLF @ CRLF" "''HEAD /y''"] a b b'
  have 1: "parse_request (''GET'' @ '' '' @ ''/x'' @ '' '' @ (''HTTP/1.1'' @ CRLF @ CRLF)) = Inr ''/x''"
    and 2: "parse_request ''HEAD /y'' = Inr ''/y''"
    by simp_all
  from parse_request_returns_path [of "''GET''" "''/x''" "[]" "''POST /x HTTP/1.1''"] c
  have 3: "parse_request ''POST /x HTTP/1.1'' = Inl NotImplementedError"
    by blast
  from a b c 1 2 3 show ?thesis by blast
qed

subsection \<open>The resolver\<close>

text \<open>
  Claim C3.  For every request path that maps to no existing filesystem entry under
  the document root, resolution fails with \<^verbatim>\<open>NameError\<close>, the NotFound condition, and
  the handler of a request with that path returns exactly the bytes
  \<^verbatim>\<open>HTTP/1.1 404 Not Found\r\n\<close>, with no header and no body after them.
\<close>

theorem missing_path_not_found:
  "\<not> os_path_exists w (query_of w path) \<Longrightarrow>
     response_path w path = Inl NameError \<and>
     (parse_request request = Inr path \<longrightarrow>
        fst (handle_request w request) = Inr (''HTTP/1.1 404 Not Found'' @ [CR, LF]))"
  by (simp add: response_path_missing os_path_exists_def fst_handle_request
      response_not_found_def CRLF_def)

theorem missing_path_not_found_witness:
  "\<not> os_path_exists sample_world (query_of sample_world ''/missing.txt'') \<and>
   response_path sample_world ''/missing.txt'' = Inl NameError \<and>
   parse_request (''GET /missing.txt HTTP/1.1'' @ CRLF @ CRLF) = Inr ''/missing.txt'' \<and>
   fst (handle_request sample_world (''GET /missing.txt HTTP/1.1'' @ CRLF @ CRLF)) =
     Inr (''HTTP/1.1 404 Not Found'' @ [CR, LF])"
proof -
  have missing: "\<not> os_path_exists sample_world (query_of sample_world ''/missing.txt'')"
    by (simp add: sample_defs)
  have parsed: "parse_request (''GET /missing.txt HTTP/1.1'' @ CRLF @ CRLF) = Inr ''/missing.txt''"
    by (simp add: parse_request_def CRLF_def Let_def)
  from missing_path_not_found [OF missing, of "''GET /missing.txt HTTP/1.1'' @ CRLF @ CRLF"]
    missing parsed
  show ?thesis by blast
qed

text \<open>
  Claim C5.  For every path that resolves to an existing regular file whose media type
  \<open>t\<close> can be guessed from its name, the resolver returns the exact bytes of the
  file together with the guessed media type (as bytes); for example an \<^verbatim>\<open>.html\<close> file
  comes back with \<^verbatim>\<open>text/html\<close>.
\<close>

theorem file_resolution:
  "lookup w (query_of w path) = Some (File content) \<Longrightarrow>
   guess_type w (query_of w path) = Some t \<Longrightarrow>
   response_path w path = Inr (content, encode t)"
  by (simp add: response_path_file)

theorem file_resolution_witness:
  "lookup sample_world (query_of sample_world ''/a.html'') = Some (File ''<html>'')
   \<and> guess_type sample_world (query_of sample_world ''/a.html'') = Some ''text/html''
   \<and> response_path sample_world ''/a.html'' = Inr (''<html>'', ''text/html'')"
proof -
  have l: "lookup sample_world (query_of sample_world ''/a.html'') = Some (File ''<html>'')"
    by (simp add: sample_defs)
  have g: "guess_type sample_world (query_of sample_world ''/a.html'') = Some ''text/html''"
    by (simp add: sample_defs)
  have c: "encode ''text/html'' = ''text/html''"
    by (simp add: encode_def encode_char_def)
  from file_resolution [OF l g] c
  have "response_path sample_world ''/a.html'' = Inr (''<html>'', ''text/html'')"
    by simp
  with l g show ?thesis by blast
qed

text \<open>
  Claim C6.  For every path that resolves to an existing directory, the resolver returns
  the media type \<^verbatim>\<open>text/plain\<close> and a body that is the entry names of the directory,
  in the order the enumeration of the filesystem returns them, joined with
  \<^verbatim>\<open>\r\n\<close>.  The names listed are those of the enumeration, whatever its order.
\<close>

theorem directory_listing:
  "lookup w (query_of w path) = Some (Dir names) \<Longrightarrow>
   os_listdir w (query_of w path) = names
   \<and> response_path w path = Inr (encode (join [CR, LF] names), ''text/plain'')"
  by (simp add: response_path_dir os_listdir_def CRLF_def)

theorem directory_listing_witness:
  "lookup sample_world (query_of sample_world ''/'') = Some (Dir [''a.html'', ''b.png'', ''Makefile''])
   \<and> os_listdir sample_world (query_of sample_world ''/'') = [''a.html'', ''b.png'', ''Makefile'']
   \<and> response_path sample_world ''/'' =
       Inr (''a.html'' @ [CR, LF] @ ''b.png'' @ [CR, LF] @ ''Makefile'', ''text/plain'')"
proof -
  have l: "lookup sample_world (query_of sample_world ''/'') =
             Some (Dir [''a.html'', ''b.png'', ''Makefile''])"
    by (simp add: sample_defs)
  have c: "encode (join [CR, LF] [''a.html'', ''b.png'', ''Makefile'']) =
             ''a.html'' @ [CR, LF] @ ''b.png'' @ [CR, LF] @ ''Makefile''"
    by (simp add: encode_def encode_char_def CR_def LF_def)
  from directory_listing [OF l] c l show ?thesis by simp
qed

text \<open>
  Claim C7.  For every path that resolves to an existing regular file whose media type
  cannot be guessed, the resolver fails with a fault that is neither \<^verbatim>\<open>NameError\<close>
  (NotFound) nor \<^verbatim>\<open>NotImplementedError\<close> (MethodNotSupported): calling \<^verbatim>\<open>encode\<close> on
  the \<^verbatim>\<open>None\<close> guess raises \<^verbatim>\<open>AttributeError\<close>.  No \<^verbatim>\<open>except\<close> clause of the handler
  catches it, so it leaves the handler and no response is produced.
\<close>

theorem unguessable_type_propagates:
  "lookup w (query_of w path) = Some (File content) \<Longrightarrow>
   guess_type w (query_of w path) = None \<Longrightarrow>
   response_path w path = Inl AttributeError
   \<and> AttributeError \<noteq> NameError \<and> AttributeError \<noteq> NotImplementedError
   \<and> (parse_request request = Inr path \<longrightarrow>
        fst (handle_request w request) = Inl AttributeError)"
  by (simp add: response_path_file fst_handle_request)

theorem unguessable_type_propagates_witness:
  "lookup sample_world (query_of sample_world ''/Makefile'') = Some (File ''all:'')
   \<and> guess_type sample_world (query_of sample_world ''/Makefile'') = None
   \<and> response_path sample_world ''/Makefile'' = Inl AttributeError
   \<and> parse_request (''GET /Makefile HTTP/1.1'' @ CRLF @ CRLF) = Inr ''/Makefile''
   \<and> fst (handle_request sample_world (''GET /Makefile HTTP/1.1'' @ CRLF @ CRLF)) =
       Inl AttributeError"
proof -
  have l: "lookup sample_world (query_of sample_world ''/Makefile'') = Some (File ''all:'')"
    by (simp add: sample_defs)
  have g: "guess_type sample_world (query_of sample_world ''/Makefile'') = None"
    by (simp add: sample_defs)
  have p: "parse_request (''GET /Makefile HTTP/1.1'' @ CRLF @ CRLF) = Inr ''/Makefile''"
    by (simp add: parse_request_def CRLF_def Let_def)
  from unguessable_type_propagates [OF l g, of "''GET /Makefile HTTP/1.1'' @ CRLF @ CRLF"] l g p
  show ?thesis by blast
qed

subsection \<open>The handler\<close>

text \<open>
  Claim C1 says that the handler answers every \<^verbatim>\<open>POST\<close> request with the 405 bytes.
  The handler calls the parser before its \<^verbatim>\<open>try\<close> block, so the
  \<^verbatim>\<open>NotImplementedError\<close> of the parser is not caught by the clause written for it:
  on \<^verbatim>\<open>POST /a.html HTTP/1.1\r\n\r\n\<close> the handler raises and returns no bytes, in
  every world.
\<close>

theorem post_request_raises:
  "fst (handle_request w (''POST /a.html HTTP/1.1'' @ CRLF @ CRLF)) = Inl NotImplementedError"
  by (simp add: fst_handle_request parse_request_def CRLF_def Let_def)

text \<open>
  Claim C8.  The handler is deterministic: run a second time on the same request, in
  the world the first run leaves behind, it gives the same outcome byte for byte.
  The first run changes neither the filesystem nor the media type table nor the
  server's directory; only the printed text grows.
\<close>

theorem handle_request_repeatable:
  "fst (handle_request (snd (handle_request w request)) request) = fst (handle_request w request)
   \<and> lookup (snd (handle_request w request)) = lookup w
   \<and> current_dir (snd (handle_request w request)) = current_dir w
   \<and> guess_type (snd (handle_request w request)) = guess_type w"
  by (simp add: snd_handle_request fst_handle_request split: sum.splits)

text \<open>
  Claim C9.  Two requests of the shape method, space, path, space, rest that agree on
  the method token and on the path token get the same outcome from the handler,
  whatever follows the path: the protocol version, the headers and the body have no
  influence.
\<close>

theorem headers_do_not_interfere:
  "CHR '' '' \<notin> set m \<Longrightarrow> CHR '' '' \<notin> set p \<Longrightarrow>
   fst (handle_request w (m @ '' '' @ p @ '' '' @ rest1)) =
   fst (handle_request w (m @ '' '' @ p @ '' '' @ rest2))"
  using parse_request_shape [of m p rest1] parse_request_shape [of m p rest2]
  by (simp add: fst_handle_request)

theorem headers_do_not_interfere_witness:
  "CHR '' '' \<notin> set ''GET'' \<and> CHR '' '' \<notin> set ''/a.html''
   \<and> fst (handle_request sample_world
        (''GET'' @ '' '' @ ''/a.html'' @ '' '' @ (''HTTP/1.1'' @ CRLF @ ''Host: x'' @ CRLF @ CRLF))) =
     fst (handle_request sample_world
        (''GET'' @ '' '' @ ''/a.html'' @ '' '' @
           (''HTTP/1.0'' @ CRLF @ ''Host: y'' @ CRLF @ ''Accept: */*'' @ CRLF @ CRLF @ ''body'')))"
proof -
  have m: "CHR '' '' \<notin> set ''GET''" by simp
  have p: "CHR '' '' \<notin> set ''/a.html''" by simp
  from headers_do_not_interfere [OF m p] m p show ?thesis by blast
qed

text \<open>
  Claim C10.  Whenever the handler returns normally, the bytes it returns have one of
  three shapes: \<^verbatim>\<open>HTTP/1.1 200 OK\r\nContent-Type: \<close>, a media type, \<^verbatim>\<open>\r\n\r\n\<close> and a
  body; \<^verbatim>\<open>HTTP/1.1 404 Not Found\r\n\<close>; or \<^verbatim>\<open>HTTP/1.1 405 Method Not Allowed\r\n\<close>.
  So every returned response begins with \<^verbatim>\<open>HTTP/1.1 \<close>.
\<close>

theorem response_shapes:
  "fst (handle_request w request) = Inr response \<Longrightarrow>
   ((\<exists>body media_type. response =
        ''HTTP/1.1 200 OK'' @ [CR, LF] @ ''Content-Type: '' @ media_type @ [CR, LF, CR, LF] @ body)
    \<or> response = ''HTTP/1.1 404 Not Found'' @ [CR, LF]
    \<or> response = ''HTTP/1.1 405 Method Not Allowed'' @ [CR, LF])
   \<and> take 9 response = ''HTTP/1.1 ''"
proof -
  assume "fst (handle_request w request) = Inr response"
  then consider (ok) body media_type where "response = response_ok body media_type"
    | (not_found) "response = response_not_found"
    | (not_allowed) "response = response_method_not_allowed"
    using handle_request_returns by blast
  then show ?thesis
  proof cases
    case ok
    then have "response =
        ''HTTP/1.1 200 OK'' @ [CR, LF] @ ''Content-Type: '' @ media_type @ [CR, LF, CR, LF] @ body"
      by (simp only: response_ok_shape)
    moreover from this have "take 9 response = ''HTTP/1.1 ''" by simp
    ultimately show ?thesis by blast
  next
    case not_found
    then show ?thesis by (simp add: response_not_found_def CRLF_def)
  next
    case not_allowed
    then show ?thesis by (simp add: response_method_not_allowed_def CRLF_def)
  qed
qed

theorem response_shapes_witness:
  "fst (handle_request sample_world (''GET /a.html HTTP/1.1'' @ CRLF @ CRLF)) =
     Inr (''HTTP/1.1 200 OK'' @ [CR, LF] @ ''Content-Type: text/html'' @ [CR, LF, CR, LF] @ ''<html>'')
   \<and> take 9 (''HTTP/1.1 200 OK'' @ [CR, LF] @ ''Content-Type: text/html'' @ [CR, LF, CR, LF] @ ''<html>'')
       = ''HTTP/1.1 ''"
proof -
  have p: "parse_request (''GET /a.html HTTP/1.1'' @ CRLF @ CRLF) = Inr ''/a.html''"
    by (simp add: parse_request_def CRLF_def Let_def)
  have r: "response_path sample_world ''/a.html'' = Inr (''<html>'', ''text/html'')"
    by (simp add: response_path_def sample_defs encode_def encode_char_def Let_def)
  have h: "fst (handle_request sample_world (''GET /a.html HTTP/1.1'' @ CRLF @ CRLF)) =
     Inr (''HTTP/1.1 200 OK'' @ [CR, LF] @ ''Content-Type: text/html'' @ [CR, LF, CR, LF] @ ''<html>'')"
    by (simp only: fst_handle_request p sum.case r) (simp add: response_ok_def CRLF_def)
  from response_shapes [OF h] h show ?thesis by blast
qed

end
